theory Spec2Isabelle
  imports Complex_Main "HOL-Library.Multiset"
begin

section \<open>The course catalog routes of the Express backend\<close>

text \<open>
  The module under verification is the router of the backend (routes/courses.js):
  \<^verbatim>\<open>
  const courses = require('../data/courses.json');

  router.get('/', (req, res) => {
    res.json(courses);
  });

  router.get('/:id', (req, res) => {
    const course = courses.find((c) => c.id === parseInt(req.params.id));
    if (course) {
      res.json(course);
    } else {
      res.status(404).json({ error: 'Course not found' });
    }
  });
  \<close>
  The dataset file data/courses.json is not part of the sources at hand, so the loaded
  array \<open>courses\<close> is a parameter of every definition below: any list of JSON values.
\<close>

subsection \<open>JavaScript values\<close>

text \<open>
  A JavaScript Number. The finite ones are rationals (every double is one); negative zero
  is identified with zero, which \<open>===\<close> cannot tell apart.
\<close>

datatype jsnum = NaN | PosInf | NegInf | Fin rat

text \<open>
  What \<open>JSON.parse\<close> can produce. An object is the list of its own properties, each key
  once. Strings are lists of code units; \<open>char\<close> covers the code units below 256.
\<close>

datatype json =
    JNull
  | JBool bool
  | JNum jsnum
  | JStr string
  | JArr "json list"
  | JObj "(string \<times> json) list"

text \<open>The only exception the handlers can raise: a property read on \<open>null\<close>.\<close>

datatype error = TypeError

text \<open>
  \<open>c.id\<close>: \<open>None\<close> is \<open>undefined\<close>. Reading a property of \<open>null\<close> throws; a boolean, a
  number, a string or an array has no property named \<open>id\<close>.
\<close>

fun prop_id :: "json \<Rightarrow> error + json option" where
  "prop_id JNull = Inl TypeError"
| "prop_id (JObj ps) = Inr (map_of ps ''id'')"
| "prop_id _ = Inr None"

text \<open>
  \<open>x === n\<close> where \<open>n\<close> is a Number: false unless \<open>x\<close> is a Number too, and false
  whenever either side is \<open>NaN\<close>.
\<close>

fun strict_eq :: "json option \<Rightarrow> jsnum \<Rightarrow> bool" where
  "strict_eq (Some (JNum a)) b = (a \<noteq> NaN \<and> b \<noteq> NaN \<and> a = b)"
| "strict_eq _ _ = False"

text \<open>The truthiness test of \<open>if (course)\<close> on a value that is not \<open>undefined\<close>.\<close>

fun truthy :: "json \<Rightarrow> bool" where
  "truthy JNull = False"
| "truthy (JBool b) = b"
| "truthy (JNum n) = (n \<noteq> NaN \<and> n \<noteq> Fin 0)"
| "truthy (JStr s) = (s \<noteq> [])"
| "truthy (JArr xs) = True"
| "truthy (JObj ps) = True"

subsection \<open>parseInt\<close>

text \<open>
  \<open>parseInt(string)\<close> with no radix, as ECMAScript defines it: skip leading white space,
  read an optional sign, read an optional \<open>0x\<close> or \<open>0X\<close> (then the radix is 16, else 10),
  take the longest prefix of digits of the radix; no digit gives \<open>NaN\<close>, otherwise the
  integer the digits denote, converted to a Number: the nearest double, ties to even, or
  an infinity beyond the largest one. (ECMAScript lets an implementation replace decimal
  digits after the twentieth by zeros; V8, the engine of Node.js, rounds the exact value.)
  The argument \<open>req.params.id\<close> is always a string, so there is no conversion before.
\<close>

definition is_ws :: "char \<Rightarrow> bool" where
  \<comment> \<open>TAB, LF, VT, FF, CR, SP and NBSP: the white space below code unit 256\<close>
  "is_ws c = (of_char c \<in> {9, 10, 11, 12, 13, 32, 160 :: nat})"

definition digit_val :: "char \<Rightarrow> nat option" where
  "digit_val c =
     (let n = of_char c :: nat in
      if 48 \<le> n \<and> n \<le> 57 then Some (n - 48)
      else if 97 \<le> n \<and> n \<le> 102 then Some (n - 87)
      else if 65 \<le> n \<and> n \<le> 70 then Some (n - 55)
      else None)"

definition is_digit :: "nat \<Rightarrow> char \<Rightarrow> bool" where
  "is_digit R c = (case digit_val c of None \<Rightarrow> False | Some d \<Rightarrow> d < R)"

definition dval :: "char \<Rightarrow> nat" where
  "dval c = (case digit_val c of None \<Rightarrow> 0 | Some d \<Rightarrow> d)"

definition math_int :: "nat \<Rightarrow> string \<Rightarrow> nat" where
  "math_int R Z = foldl (\<lambda>a c. a * R + dval c) 0 Z"

fun bit_length :: "nat \<Rightarrow> nat" where
  "bit_length n = (if n = 0 then 0 else Suc (bit_length (n div 2)))"

declare bit_length.simps [simp del]

text \<open>
  The Number nearest to a natural number, ties to the even significand of 53 bits;
  \<open>None\<close> when the rounded value is beyond the largest double (the Number is an
  infinity).
\<close>

definition round_f64 :: "nat \<Rightarrow> nat option" where
  "round_f64 m =
     (if m < 2 ^ 53 then Some m
      else
        let e = bit_length m - 53;
            q = m div 2 ^ e;
            r = m mod 2 ^ e;
            h = 2 ^ (e - 1);
            q' = (if h < r \<or> (r = h \<and> odd q) then q + 1 else q);
            v = q' * 2 ^ e
        in if 2 ^ 1024 \<le> v then None else Some v)"

definition to_number :: "bool \<Rightarrow> nat \<Rightarrow> jsnum" where
  "to_number neg m =
     (case round_f64 m of
        None \<Rightarrow> (if neg then NegInf else PosInf)
      | Some v \<Rightarrow> Fin (if neg then - of_nat v else of_nat v))"

fun strip_sign :: "string \<Rightarrow> bool \<times> string" where
  "strip_sign [] = (False, [])"
| "strip_sign (c # r) =
     (if c = CHR ''-'' then (True, r)
      else if c = CHR ''+'' then (False, r)
      else (False, c # r))"

fun strip_prefix :: "string \<Rightarrow> nat \<times> string" where
  "strip_prefix (a # b # r) =
     (if a = CHR ''0'' \<and> (b = CHR ''x'' \<or> b = CHR ''X'') then (16, r)
      else (10, a # b # r))"
| "strip_prefix S = (10, S)"

definition parseInt :: "string \<Rightarrow> jsnum" where
  "parseInt s =
     (let (neg, S) = strip_sign (dropWhile is_ws s);
          (R, S') = strip_prefix S;
          Z = takeWhile (is_digit R) S'
      in if Z = [] then NaN else to_number neg (math_int R Z))"

subsection \<open>Array.prototype.find\<close>

text \<open>
  A linear scan from the first element: the first element on which the callback is true
  is returned and the scan stops; an exception of the callback ends the scan.
\<close>

fun find_js :: "(json \<Rightarrow> error + bool) \<Rightarrow> json list \<Rightarrow> error + json option" where
  "find_js p [] = Inr None"
| "find_js p (c # cs) =
     (case p c of
        Inl e \<Rightarrow> Inl e
      | Inr True \<Rightarrow> Inr (Some c)
      | Inr False \<Rightarrow> find_js p cs)"

subsection \<open>The response and the two handlers\<close>

record response =
  status :: nat
  body :: "json option"

definition new_res :: response where
  \<comment> \<open>Express starts every response with status 200 and nothing sent\<close>
  "new_res = \<lparr>status = 200, body = None\<rparr>"

definition res_status :: "nat \<Rightarrow> response \<Rightarrow> response" where
  "res_status n res = res\<lparr>status := n\<rparr>"

definition res_json :: "json \<Rightarrow> response \<Rightarrow> response" where
  "res_json v res = res\<lparr>body := Some v\<rparr>"

definition not_found_body :: json where
  "not_found_body = JObj [(''error'', JStr ''Course not found'')]"

text \<open>
  Each handler takes the module's array and returns its outcome together with the array
  as the handler leaves it: neither handler assigns to \<open>courses\<close> or to an element.
\<close>

definition matches :: "string \<Rightarrow> json \<Rightarrow> error + bool" where
  \<comment> \<open>the callback \<open>(c) => c.id === parseInt(req.params.id)\<close>: \<open>c.id\<close> is read first\<close>
  "matches id_param c =
     (case prop_id c of
        Inl e \<Rightarrow> Inl e
      | Inr v \<Rightarrow> Inr (strict_eq v (parseInt id_param)))"

definition get_root :: "json list \<Rightarrow> (error + response) \<times> json list" where
  "get_root courses = (Inr (res_json (JArr courses) new_res), courses)"

definition get_by_id :: "json list \<Rightarrow> string \<Rightarrow> (error + response) \<times> json list" where
  "get_by_id courses id_param =
     (case find_js (matches id_param) courses of
        Inl e \<Rightarrow> (Inl e, courses)
      | Inr None \<Rightarrow>
          \<comment> \<open>\<open>find\<close> returned \<open>undefined\<close>, which is falsy\<close>
          (Inr (res_json not_found_body (res_status 404 new_res)), courses)
      | Inr (Some course) \<Rightarrow>
          if truthy course then (Inr (res_json course new_res), courses)
          else (Inr (res_json not_found_body (res_status 404 new_res)), courses))"

datatype request = GetRoot | GetId string

fun coursesRouter :: "json list \<Rightarrow> request \<Rightarrow> (error + response) \<times> json list" where
  "coursesRouter courses GetRoot = get_root courses"
| "coursesRouter courses (GetId p) = get_by_id courses p"

text \<open>A sequence of requests served one after the other, each on the array the last left.\<close>

fun serve :: "json list \<Rightarrow> request list \<Rightarrow> json list" where
  "serve courses [] = courses"
| "serve courses (r # rs) = serve (snd (coursesRouter courses r)) rs"

subsection \<open>Inputs and datasets the properties speak of\<close>

text \<open>
  The decimal numeral of a natural number: the path segment a caller writes to ask for
  the course with that id.
\<close>

fun dec :: "nat \<Rightarrow> string" where
  "dec n =
     (if n < 10 then [char_of (48 + n)]
      else dec (n div 10) @ [char_of (48 + n mod 10)])"

declare dec.simps [simp del]


text \<open>The dataset of the specification's concrete scenario.\<close>

definition intro_to_cloud :: json where
  "intro_to_cloud = JObj [(''id'', JNum (Fin 1)), (''title'', JStr ''Intro to Cloud'')]"

definition terraform_basics :: json where
  "terraform_basics = JObj [(''id'', JNum (Fin 2)), (''title'', JStr ''Terraform Basics'')]"

definition scenario :: "json list" where
  "scenario = [intro_to_cloud, terraform_basics]"

text \<open>A dataset whose only course has the id 15, and a second course with the id 2.\<close>

definition course15 :: json where
  "course15 = JObj [(''id'', JNum (Fin 15)), (''title'', JStr ''Containers on ECS'')]"

definition terraform_again :: json where
  "terraform_again = JObj [(''id'', JNum (Fin 2)), (''title'', JStr ''Terraform Advanced'')]"

section \<open>Properties\<close>

subsection \<open>The scan and the callback\<close>

lemma find_js_none: "(\<And>c. c \<in> set cs \<Longrightarrow> p c = Inr False) \<Longrightarrow> find_js p cs = Inr None"
  by (induction cs) auto

lemma find_js_first:
  "(\<And>d. d \<in> set pre \<Longrightarrow> p d = Inr False) \<Longrightarrow> p c = Inr True \<Longrightarrow>
   find_js p (pre @ c # post) = Inr (Some c)"
  by (induction pre) auto

lemma strict_eq_iff: "strict_eq v n \<longleftrightarrow> v = Some (JNum n) \<and> n \<noteq> NaN"
  by (cases "(v, n)" rule: strict_eq.cases) auto

lemma prop_id_not_null: "c \<noteq> JNull \<Longrightarrow> \<exists>v. prop_id c = Inr v"
  by (cases c) auto

lemma matches_False:
  "c \<noteq> JNull \<Longrightarrow> prop_id c \<noteq> Inr (Some (JNum (parseInt s))) \<Longrightarrow> matches s c = Inr False"
  using prop_id_not_null [of c] by (auto simp: matches_def strict_eq_iff)


lemma matches_True:
  "prop_id c = Inr (Some (JNum (parseInt s))) \<Longrightarrow> parseInt s \<noteq> NaN \<Longrightarrow> matches s c = Inr True"
  by (simp add: matches_def)

lemma prop_id_truthy: "prop_id c = Inr (Some v) \<Longrightarrow> truthy c"
  by (cases c) auto

lemma get_by_id_none:
  assumes "\<And>c. c \<in> set cs \<Longrightarrow> matches s c = Inr False"
  shows "get_by_id cs s = (Inr \<lparr>status = 404, body = Some not_found_body\<rparr>, cs)"
  using find_js_none [of cs "matches s", OF assms]
  by (simp add: get_by_id_def res_json_def res_status_def new_res_def)

lemma get_by_id_first:
  assumes "JNull \<notin> set pre"
    and "Inr (Some (JNum (parseInt s))) \<notin> prop_id ` set pre"
    and "prop_id c = Inr (Some (JNum (parseInt s)))"
    and "parseInt s \<noteq> NaN"
  shows "get_by_id (pre @ c # post) s = (Inr \<lparr>status = 200, body = Some c\<rparr>, pre @ c # post)"
proof -
  have "matches s d = Inr False" if "d \<in> set pre" for d
    using that assms(1,2) by (intro matches_False) (auto simp: image_iff)
  then have "find_js (matches s) (pre @ c # post) = Inr (Some c)"
    using matches_True [OF assms(3,4)] by (rule find_js_first)
  then show ?thesis
    using prop_id_truthy [OF assms(3)]
    by (simp add: get_by_id_def res_json_def new_res_def)
qed

text \<open>A \<open>null\<close> element that the scan reaches makes the callback throw.\<close>

lemma null_element_throws: "get_by_id (JNull # courses) s = (Inl TypeError, JNull # courses)"
  by (simp add: get_by_id_def matches_def)

subsection \<open>What parseInt reads\<close>

lemma digit_val_dec: "d < 10 \<Longrightarrow> digit_val (char_of (48 + d)) = Some d"
  by (simp add: digit_val_def)

lemma is_digit_10: "is_digit 10 c \<longleftrightarrow> 48 \<le> (of_char c :: nat) \<and> (of_char c :: nat) \<le> 57"
  by (auto simp: is_digit_def digit_val_def Let_def)

lemma is_digit_10_chars:
  assumes "is_digit 10 c"
  shows "\<not> is_ws c" "c \<noteq> CHR ''-''" "c \<noteq> CHR ''+''" "c \<noteq> CHR ''x''" "c \<noteq> CHR ''X''"
  using assms by (auto simp: is_digit_10 is_ws_def)

lemma dec_digits: "list_all (is_digit 10) (dec n)"
proof (induction n rule: dec.induct)
  case (1 n)
  have dig: "is_digit 10 (char_of (48 + d))" if "d < 10" for d :: nat
    using that by (simp add: is_digit_def digit_val_dec)
  show ?case
    by (subst dec.simps) (use 1 dig in auto)
qed

lemma dec_not_Nil: "dec n \<noteq> []"
  by (subst dec.simps) simp

lemma math_int_snoc: "math_int R (Z @ [c]) = math_int R Z * R + dval c"
  by (simp add: math_int_def)

lemma math_int_dec: "math_int 10 (dec n) = n"
proof (induction n rule: dec.induct)
  case (1 n)
  show ?case
  proof (cases "n < 10")
    case True
    then show ?thesis
      by (subst dec.simps) (simp add: math_int_def dval_def digit_val_dec)
  next
    case False
    then have "math_int 10 (dec n) = math_int 10 (dec (n div 10)) * 10 + n mod 10"
      by (subst dec.simps) (simp add: math_int_snoc dval_def digit_val_dec)
    with 1 False show ?thesis by simp
  qed
qed

lemma parseInt_digits:
  assumes "ds \<noteq> []" and "list_all (is_digit 10) ds"
    and "rest = [] \<or> \<not> is_digit 10 (hd rest)"
    and "\<not> (ds = ''0'' \<and> rest \<noteq> [] \<and> (hd rest = CHR ''x'' \<or> hd rest = CHR ''X''))"
  shows "parseInt (ds @ rest) = to_number False (math_int 10 ds)"
proof -
  obtain d ds' where ds: "ds = d # ds'"
    using assms(1) by (cases ds) auto
  have d: "is_digit 10 d" and ds': "list_all (is_digit 10) ds'"
    using assms(2) ds by auto
  have drop: "dropWhile is_ws (ds @ rest) = ds @ rest"
    using is_digit_10_chars(1) [OF d] ds by simp
  have sign: "strip_sign (ds @ rest) = (False, ds @ rest)"
    using is_digit_10_chars(2,3) [OF d] ds by simp
  have pre: "strip_prefix (ds @ rest) = (10, ds @ rest)"
  proof (cases ds')
    case Nil
    then show ?thesis
      using assms(4) ds by (cases rest) auto
  next
    case (Cons e es)
    then have "is_digit 10 e" using ds' by simp
    then show ?thesis
      using is_digit_10_chars(4,5) [of e] ds Cons by simp
  qed
  have take: "takeWhile (is_digit 10) (ds @ rest) = ds"
  proof (cases rest)
    case Nil
    then show ?thesis using assms(2) by (simp add: list_all_iff)
  next
    case (Cons r rs)
    then have "\<not> is_digit 10 r" using assms(3) by simp
    then show ?thesis
      using assms(2) Cons by (simp add: list_all_iff)
  qed
  show ?thesis
    using assms(1) by (simp add: parseInt_def drop sign pre take)
qed

lemma parseInt_dec: "parseInt (dec n) = to_number False n"
  using parseInt_digits [of "dec n" "[]"] dec_digits [of n] dec_not_Nil [of n]
  by (simp add: math_int_dec)

lemma to_number_not_NaN: "to_number neg m \<noteq> NaN"
  by (simp add: to_number_def split: option.splits)

lemma to_number_small: "m < 2 ^ 53 \<Longrightarrow> to_number False m = Fin (of_nat m)"
  by (simp add: to_number_def round_f64_def)

lemma parseInt_NaN_iff:
  "parseInt s = NaN \<longleftrightarrow>
     (case strip_sign (dropWhile is_ws s) of
        (neg, S) \<Rightarrow> (case strip_prefix S of (R, S') \<Rightarrow> takeWhile (is_digit R) S' = []))"
  by (simp add: parseInt_def Let_def to_number_not_NaN split: prod.splits)

text \<open>A string that starts with neither white space, a sign nor a decimal digit is not a number.\<close>

lemma parseInt_no_digit_start:
  assumes "s = [] \<or> \<not> (is_ws (hd s) \<or> hd s = CHR ''+'' \<or> hd s = CHR ''-'' \<or> is_digit 10 (hd s))"
  shows "parseInt s = NaN"
proof (cases s)
  case Nil
  then show ?thesis by (simp add: parseInt_def)
next
  case (Cons c r)
  with assms have c: "\<not> is_ws c" "c \<noteq> CHR ''+''" "c \<noteq> CHR ''-''" "\<not> is_digit 10 c"
    by simp_all
  then have "c \<noteq> CHR ''0''"
    by (auto simp: is_digit_def digit_val_def)
  then have "strip_prefix (c # r) = (10, c # r)"
    by (cases r) simp_all
  then show ?thesis
    using c Cons by (simp add: parseInt_def)
qed

subsection \<open>The handlers leave the array alone\<close>

lemma router_keeps: "snd (coursesRouter courses r) = courses"
  by (cases r) (auto simp: get_root_def get_by_id_def split: sum.splits option.splits)

lemma serve_unchanged: "serve courses rs = courses"
  by (induction rs) (simp_all add: router_keeps)

subsection \<open>Evaluations on concrete inputs\<close>

lemma parseInt_two: "parseInt ''2'' = Fin 2"
  by (simp add: parseInt_def is_ws_def is_digit_def digit_val_def dval_def math_int_def
      to_number_def round_f64_def)

lemma parseInt_2abc: "parseInt ''2abc'' = Fin 2"
  by (simp add: parseInt_def is_ws_def is_digit_def digit_val_def dval_def math_int_def
      to_number_def round_f64_def)


lemma parseInt_99: "parseInt ''99'' = Fin 99"
  by (simp add: parseInt_def is_ws_def is_digit_def digit_val_def dval_def math_int_def
      to_number_def round_f64_def)

lemma parseInt_0xf: "parseInt ''0xf'' = Fin 15"
  by (simp add: parseInt_def is_ws_def is_digit_def digit_val_def dval_def math_int_def
      to_number_def round_f64_def)

lemma parseInt_0: "parseInt ''0'' = Fin 0"
  by (simp add: parseInt_def is_ws_def is_digit_def digit_val_def dval_def math_int_def
      to_number_def round_f64_def)

lemma scenario_ids:
  "prop_id intro_to_cloud = Inr (Some (JNum (Fin 1)))"
  "prop_id terraform_basics = Inr (Some (JNum (Fin 2)))"
  by (simp_all add: intro_to_cloud_def terraform_basics_def)

lemma scenario_not_null: "JNull \<noteq> intro_to_cloud" "JNull \<noteq> terraform_basics"
  by (simp_all add: intro_to_cloud_def terraform_basics_def)

lemma scenario_get_2abc:
  "get_by_id scenario ''2abc'' = (Inr \<lparr>status = 200, body = Some terraform_basics\<rparr>, scenario)"
  using get_by_id_first [of "[intro_to_cloud]" "''2abc''" terraform_basics "[]"]
  by (simp add: scenario_def parseInt_2abc scenario_ids scenario_not_null)


section \<open>The claims\<close>

text \<open>
  Claim C1. For every record stored in the loaded collection, the request for that
  record's id returns exactly that record, with status 200. The collection is one of the
  data model: no element is \<open>null\<close>, the ids are unique, and the record's id is a natural
  number \<open>n\<close>, stored as the Number \<open>to_number False n\<close> (which is \<open>Fin n\<close> below
  \<open>2 ^ 53\<close>); the caller writes the id as its decimal numeral.
\<close>

theorem get_by_id_stored:
  assumes "JNull \<notin> set courses"
    and "distinct (map prop_id courses)"
    and "c \<in> set courses"
    and "prop_id c = Inr (Some (JNum (to_number False n)))"
  shows "get_by_id courses (dec n) = (Inr \<lparr>status = 200, body = Some c\<rparr>, courses)"
proof -
  obtain pre post where split: "courses = pre @ c # post"
    using assms(3) by (auto simp: in_set_conv_decomp)
  have "prop_id c \<notin> prop_id ` set pre"
    using assms(2) split by auto
  then have absent: "Inr (Some (JNum (parseInt (dec n)))) \<notin> prop_id ` set pre"
    using assms(4) by (simp add: parseInt_dec)
  have "JNull \<notin> set pre"
    using assms(1) split by simp
  then show ?thesis
    unfolding split using absent
    by (rule get_by_id_first) (simp_all add: assms(4) parseInt_dec to_number_not_NaN)
qed

theorem get_by_id_stored_witness:
  "dec 2 = ''2'' \<and>
   get_by_id scenario ''2'' = (Inr \<lparr>status = 200, body = Some terraform_basics\<rparr>, scenario)"
proof -
  have numeral: "dec 2 = ''2''"
    by code_simp
  have "distinct (map prop_id scenario)" "JNull \<notin> set scenario" "terraform_basics \<in> set scenario"
    by (simp_all add: scenario_def scenario_ids) (simp_all add: intro_to_cloud_def terraform_basics_def)
  moreover have "prop_id terraform_basics = Inr (Some (JNum (to_number False 2)))"
    by (simp add: scenario_ids to_number_small)
  ultimately show ?thesis
    using get_by_id_stored [of scenario terraform_basics 2] by (simp add: numeral)
qed

text \<open>
  Claim C2. For every id, read from the path by \<open>parseInt\<close>, that is not the id of any
  record of the collection, the answer is status 404 with the body
  \<open>{"error": "Course not found"}\<close>, and no record. No element is \<open>null\<close>.
\<close>

theorem get_by_id_absent:
  assumes "JNull \<notin> set courses"
    and "Inr (Some (JNum (parseInt s))) \<notin> prop_id ` set courses"
  shows "get_by_id courses s =
    (Inr \<lparr>status = 404, body = Some (JObj [(''error'', JStr ''Course not found'')])\<rparr>, courses)"
proof -
  have "matches s c = Inr False" if "c \<in> set courses" for c
    using that assms by (intro matches_False) (auto simp: image_iff)
  then show ?thesis
    using get_by_id_none [of courses s] by (simp add: not_found_body_def)
qed

theorem get_by_id_absent_witness:
  "get_by_id scenario ''99'' =
    (Inr \<lparr>status = 404, body = Some (JObj [(''error'', JStr ''Course not found'')])\<rparr>, scenario)"
  using get_by_id_absent [of scenario "''99''"]
  by (simp add: scenario_def scenario_ids parseInt_99) (simp add: intro_to_cloud_def terraform_basics_def)




text \<open>
  Claim C4. The list request takes no input and returns every record of the collection
  exactly once: the body is an array of the same length, with the same element at every
  index, and with the same elements counted with multiplicity.
\<close>

theorem get_root_all_in_order:
  "\<exists>res items. fst (get_root courses) = Inr res \<and> body res = Some (JArr items) \<and>
     length items = length courses \<and> (\<forall>i<length courses. items ! i = courses ! i) \<and>
     mset items = mset courses"
  by (simp add: get_root_def res_json_def new_res_def)

theorem get_root_all_in_order_witness:
  "\<exists>res items. fst (get_root scenario) = Inr res \<and> body res = Some (JArr items) \<and>
     length items = 2 \<and> items ! 0 = intro_to_cloud \<and> items ! 1 = terraform_basics \<and>
     mset items = mset scenario"
  using get_root_all_in_order [of scenario] by (auto simp: scenario_def)

text \<open>
  Claim C5. Both operations are repeatable: a request gives the same outcome on the
  array its own first call left, and on the array any sequence of other requests left.
\<close>

theorem router_repeatable:
  "coursesRouter (snd (coursesRouter courses r)) r = coursesRouter courses r \<and>
   coursesRouter (serve courses rs) r = coursesRouter courses r"
  by (simp add: router_keeps serve_unchanged)

theorem router_repeatable_witness:
  "coursesRouter (snd (coursesRouter scenario (GetId ''2''))) (GetId ''2'') =
     coursesRouter scenario (GetId ''2'') \<and>
   coursesRouter (serve scenario [GetRoot, GetId ''abc'']) (GetId ''2'') =
     coursesRouter scenario (GetId ''2'')"
  using router_repeatable [of scenario "GetId ''2''" "[GetRoot, GetId ''abc'']"] by simp




text \<open>
  Claim C7. The list request always succeeds: whatever the collection holds, the answer
  is status 200 with the array as body, never an exception, and the array is left as it
  was.
\<close>

theorem get_root_always_200:
  "get_root courses = (Inr \<lparr>status = 200, body = Some (JArr courses)\<rparr>, courses) \<and>
   (\<forall>e. fst (get_root courses) \<noteq> Inl e)"
  by (simp add: get_root_def res_json_def new_res_def)

theorem get_root_always_200_witness:
  "get_root [] = (Inr \<lparr>status = 200, body = Some (JArr [])\<rparr>, []) \<and>
   get_root [JNull] = (Inr \<lparr>status = 200, body = Some (JArr [JNull])\<rparr>, [JNull])"
  using get_root_always_200 [of "[]"] get_root_always_200 [of "[JNull]"] by simp

text \<open>
  Claim C8. Neither operation changes the collection: after either handler, and after
  any sequence of requests, the array is the array as loaded.
\<close>

theorem courses_never_mutated:
  "snd (get_root courses) = courses \<and> snd (get_by_id courses p) = courses \<and>
   serve courses rs = courses"
  using router_keeps [of courses GetRoot] router_keeps [of courses "GetId p"]
  by (simp add: serve_unchanged)

theorem courses_never_mutated_witness:
  "snd (get_root scenario) = scenario \<and> snd (get_by_id scenario ''2'') = scenario \<and>
   serve scenario [GetId ''2'', GetRoot, GetId ''abc'', GetId ''2''] = scenario"
  by (rule courses_never_mutated)

text \<open>
  Claim C9, as amended. An input that begins with decimal digits followed by a character
  that is not a decimal digit is answered as its digit prefix alone would be, unless the
  prefix is the single digit 0 and the next character is \<open>x\<close> or \<open>X\<close>.
\<close>

theorem digit_prefix_decides:
  assumes "ds \<noteq> []" and "list_all (is_digit 10) ds"
    and "rest \<noteq> []" and "\<not> is_digit 10 (hd rest)"
    and "\<not> (ds = ''0'' \<and> (hd rest = CHR ''x'' \<or> hd rest = CHR ''X''))"
  shows "get_by_id courses (ds @ rest) = get_by_id courses ds"
proof -
  have "parseInt (ds @ rest) = to_number False (math_int 10 ds)"
    using assms by (intro parseInt_digits) auto
  moreover have "parseInt (ds @ []) = to_number False (math_int 10 ds)"
    using assms(1,2) by (intro parseInt_digits) auto
  ultimately have eq: "parseInt (ds @ rest) = parseInt ds"
    by simp
  have "matches (ds @ rest) = matches ds"
    unfolding matches_def eq by (rule refl)
  then show ?thesis
    by (simp add: get_by_id_def)
qed

theorem digit_prefix_decides_witness:
  "get_by_id scenario ''2abc'' = get_by_id scenario ''2'' \<and>
   get_by_id scenario ''2abc'' = (Inr \<lparr>status = 200, body = Some terraform_basics\<rparr>, scenario)"
  using digit_prefix_decides [of "''2''" "''abc''" scenario] scenario_get_2abc
  by (simp add: is_digit_def digit_val_def)

text \<open>
  Claim C9 as stated fails where \<open>parseInt\<close> reads a hexadecimal prefix: \<open>0xf\<close> begins
  with the decimal digit 0 followed by the non-decimal characters \<open>xf\<close>, and it is read
  as 15, so the course with id 15 is returned where the prefix \<open>0\<close> alone gives 404.
\<close>

theorem hex_prefix_not_decimal_prefix:
  "list_all (is_digit 10) ''0'' \<and> \<not> is_digit 10 CHR ''x'' \<and> \<not> is_digit 10 CHR ''f'' \<and>
   get_by_id [course15] (''0'' @ ''xf'') = (Inr \<lparr>status = 200, body = Some course15\<rparr>, [course15]) \<and>
   get_by_id [course15] ''0'' =
     (Inr \<lparr>status = 404, body = Some (JObj [(''error'', JStr ''Course not found'')])\<rparr>, [course15])"
proof -
  have id15: "prop_id course15 = Inr (Some (JNum (Fin 15)))"
    by (simp add: course15_def)
  have "get_by_id ([] @ course15 # []) ''0xf'' = (Inr \<lparr>status = 200, body = Some course15\<rparr>, [] @ course15 # [])"
    by (rule get_by_id_first) (simp_all add: parseInt_0xf id15)
  moreover have "get_by_id [course15] ''0'' = (Inr \<lparr>status = 404, body = Some not_found_body\<rparr>, [course15])"
    by (rule get_by_id_none) (simp add: matches_def id15 parseInt_0)
  ultimately show ?thesis
    by (simp add: is_digit_def digit_val_def not_found_body_def)
qed

text \<open>
  Claim C10. When two records have the same id, the request for that id returns the
  first of them in dataset order: the record at index \<open>i\<close>, when no record before it is
  \<open>null\<close> or has that id, whatever follows it (here a record at \<open>j\<close> with the same id).
\<close>

theorem first_of_duplicates:
  assumes "i < j" and "j < length courses"
    and "prop_id (courses ! i) = Inr (Some (JNum (parseInt s)))"
    and "prop_id (courses ! j) = prop_id (courses ! i)"
    and "parseInt s \<noteq> NaN"
    and "\<forall>k<i. courses ! k \<noteq> JNull \<and> prop_id (courses ! k) \<noteq> prop_id (courses ! i)"
  shows "get_by_id courses s = (Inr \<lparr>status = 200, body = Some (courses ! i)\<rparr>, courses)"
proof -
  let ?pre = "take i courses" and ?post = "drop (Suc i) courses"
  have i: "i < length courses"
    using assms(1,2) by simp
  then have split: "courses = ?pre @ courses ! i # ?post"
    by (rule id_take_nth_drop)
  have ok: "courses ! k \<noteq> JNull" "prop_id (courses ! k) \<noteq> prop_id (courses ! i)" if "k < i" for k
    using assms(6) that by simp_all
  have pre_ok: "d \<noteq> JNull \<and> prop_id d \<noteq> Inr (Some (JNum (parseInt s)))" if d: "d \<in> set ?pre" for d
  proof -
    obtain k where "k < i" and "d = courses ! k"
      using d i by (auto simp: in_set_conv_nth)
    then show ?thesis
      using ok [of k] assms(3) by simp
  qed
  have "JNull \<notin> set ?pre"
    using pre_ok by blast
  moreover have "Inr (Some (JNum (parseInt s))) \<notin> prop_id ` set ?pre"
  proof
    assume "Inr (Some (JNum (parseInt s))) \<in> prop_id ` set ?pre"
    then obtain d where "d \<in> set ?pre" and "prop_id d = Inr (Some (JNum (parseInt s)))"
      by (auto simp: image_iff)
    then show False
      using pre_ok [of d] by simp
  qed
  ultimately have "get_by_id (?pre @ courses ! i # ?post) s =
      (Inr \<lparr>status = 200, body = Some (courses ! i)\<rparr>, ?pre @ courses ! i # ?post)"
    using assms(3,5) by (rule get_by_id_first)
  with split show ?thesis by simp
qed

theorem first_of_duplicates_witness:
  "get_by_id [intro_to_cloud, terraform_basics, terraform_again] ''2'' =
     (Inr \<lparr>status = 200, body = Some terraform_basics\<rparr>,
      [intro_to_cloud, terraform_basics, terraform_again])"
  using first_of_duplicates [of 1 2 "[intro_to_cloud, terraform_basics, terraform_again]" "''2''"]
  by (simp add: parseInt_two scenario_ids scenario_not_null [symmetric] terraform_again_def)

end
